theory Spec2Isabelle
  imports Complex_Main "HOL-Library.AList" "HOL-Library.Sublist"
begin

section \<open>JavaScript values handled by the client\<close>

text \<open>
  A decoded response body is a JSON value. An object is the list of its own properties
  (the keys of a decoded object are distinct); numbers are only carried along and tested
  for zero, so they are reals. Strings are byte strings: a non-ASCII character is the
  bytes of its UTF-8 encoding, none of which is an ASCII digit or letter.
\<close>

datatype json =
    JNull
  | JBool bool
  | JNum real
  | JStr string
  | JArr "json list"
  | JObj "(string \<times> json) list"

text \<open>
  Reading a property of a value that is not \<open>null\<close>: \<open>None\<close> is \<open>undefined\<close>. The client
  reads only \<open>message\<close>, \<open>error\<close>, \<open>code\<close>, \<open>data\<close> and the five snake-case counters, none of
  which is defined on a primitive or an array. Reading a property of \<open>null\<close> throws and is
  handled where it occurs.
\<close>

fun get_property :: "json \<Rightarrow> string \<Rightarrow> json option" where
  "get_property (JObj kvs) k = map_of kvs k"
| "get_property _ k = None"

text \<open>JavaScript truthiness of a property read.\<close>

fun truthy :: "json option \<Rightarrow> bool" where
  "truthy None = False"
| "truthy (Some JNull) = False"
| "truthy (Some (JBool b)) = b"
| "truthy (Some (JNum n)) = (n \<noteq> 0)"
| "truthy (Some (JStr s)) = (s \<noteq> [])"
| "truthy (Some (JArr xs)) = True"
| "truthy (Some (JObj kvs)) = True"

text \<open>\<open>a || d\<close> with a defined right operand \<open>d\<close>.\<close>

fun logical_or :: "json option \<Rightarrow> json \<Rightarrow> json" where
  "logical_or None d = d"
| "logical_or (Some v) d = (if truthy (Some v) then v else d)"

text \<open>\<open>a ?? d\<close>: only \<open>undefined\<close> and \<open>null\<close> give the right operand.\<close>

fun nullish :: "json option \<Rightarrow> json \<Rightarrow> json" where
  "nullish None d = d"
| "nullish (Some JNull) d = d"
| "nullish (Some v) d = v"

section \<open>Error classes\<close>

text \<open>
  One constructor per class of the hierarchy, with the arguments of the class constructor.
  The message and the code of a classified failure come from the response body, so they are
  JSON values; the network and timeout errors are built from strings. The code, the status
  code and the extra fields are stored as they are given. The message goes to \<open>Error\<close>, which
  keeps a string as it is (and would store the string form of any other value):
  \<open>message_of\<close> is the argument given.
\<close>

datatype FirmeApiError =
    FirmeApiError json json int
  | AuthenticationError json json
  | NotFoundError json json
  | RateLimitError json json json json json
  | InsufficientCreditsError json json json json
  | ValidationError json json
  | ApiError json json int
  | NetworkError string
  | TimeoutError string

fun name_of :: "FirmeApiError \<Rightarrow> string" where
  "name_of (FirmeApiError m c s) = ''FirmeApiError''"
| "name_of (AuthenticationError m c) = ''AuthenticationError''"
| "name_of (NotFoundError m c) = ''NotFoundError''"
| "name_of (RateLimitError m c r u l) = ''RateLimitError''"
| "name_of (InsufficientCreditsError m c a r) = ''InsufficientCreditsError''"
| "name_of (ValidationError m c) = ''ValidationError''"
| "name_of (ApiError m c s) = ''ApiError''"
| "name_of (NetworkError m) = ''NetworkError''"
| "name_of (TimeoutError m) = ''TimeoutError''"

fun message_of :: "FirmeApiError \<Rightarrow> json" where
  "message_of (FirmeApiError m c s) = m"
| "message_of (AuthenticationError m c) = m"
| "message_of (NotFoundError m c) = m"
| "message_of (RateLimitError m c r u l) = m"
| "message_of (InsufficientCreditsError m c a r) = m"
| "message_of (ValidationError m c) = m"
| "message_of (ApiError m c s) = m"
| "message_of (NetworkError m) = JStr m"
| "message_of (TimeoutError m) = JStr m"

fun code_of :: "FirmeApiError \<Rightarrow> json" where
  "code_of (FirmeApiError m c s) = c"
| "code_of (AuthenticationError m c) = c"
| "code_of (NotFoundError m c) = c"
| "code_of (RateLimitError m c r u l) = c"
| "code_of (InsufficientCreditsError m c a r) = c"
| "code_of (ValidationError m c) = c"
| "code_of (ApiError m c s) = c"
| "code_of (NetworkError m) = JStr ''NETWORK_ERROR''"
| "code_of (TimeoutError m) = JStr ''TIMEOUT''"

fun statusCode_of :: "FirmeApiError \<Rightarrow> int" where
  "statusCode_of (FirmeApiError m c s) = s"
| "statusCode_of (AuthenticationError m c) = 401"
| "statusCode_of (NotFoundError m c) = 404"
| "statusCode_of (RateLimitError m c r u l) = 429"
| "statusCode_of (InsufficientCreditsError m c a r) = 403"
| "statusCode_of (ValidationError m c) = 400"
| "statusCode_of (ApiError m c s) = s"
| "statusCode_of (NetworkError m) = 0"
| "statusCode_of (TimeoutError m) = 0"

text \<open>The extra fields of the two classes that have them; \<open>None\<close> where the class has none.\<close>

fun retryAfter :: "FirmeApiError \<Rightarrow> json option" where
  "retryAfter (RateLimitError m c r u l) = Some r"
| "retryAfter _ = None"

fun currentUsage :: "FirmeApiError \<Rightarrow> json option" where
  "currentUsage (RateLimitError m c r u l) = Some u"
| "currentUsage _ = None"

fun limit_of :: "FirmeApiError \<Rightarrow> json option" where
  "limit_of (RateLimitError m c r u l) = Some l"
| "limit_of _ = None"

fun availableCredits :: "FirmeApiError \<Rightarrow> json option" where
  "availableCredits (InsufficientCreditsError m c a r) = Some a"
| "availableCredits _ = None"

fun requiredCredits :: "FirmeApiError \<Rightarrow> json option" where
  "requiredCredits (InsufficientCreditsError m c a r) = Some r"
| "requiredCredits _ = None"

text \<open>
  What a \<open>throw\<close> can carry: an instance of the hierarchy above, another \<open>Error\<close> instance
  (its name and message: a \<open>TypeError\<close>, a \<open>SyntaxError\<close>, an \<open>AbortError\<close>), or a value that
  is no \<open>Error\<close> at all.
\<close>

datatype thrown =
    Failure FirmeApiError
  | JsError string string
  | NonError json

section \<open>Classification of an error response\<close>

text \<open>The message of the \<open>TypeError\<close> for reading a property of \<open>null\<close>, in V8's wording.\<close>

definition null_read :: "string \<Rightarrow> thrown" where
  "null_read k = JsError ''TypeError'' (''Cannot read properties of null (reading '' @ [CHR 0x27] @ k @ [CHR 0x27] @ '')'')"

text \<open>\<open>handleErrorResponse\<close> never returns: its value is what it throws.\<close>

fun handleErrorResponse :: "int \<Rightarrow> json \<Rightarrow> thrown" where
  "handleErrorResponse statusCode JNull = null_read ''message''"
| "handleErrorResponse statusCode data =
     (let message = logical_or (get_property data ''message'')
                      (logical_or (get_property data ''error'') (JStr ''Unknown error''));
          code = logical_or (get_property data ''code'') (JStr ''UNKNOWN_ERROR'')
      in if statusCode = 401 then Failure (AuthenticationError message code)
         else if statusCode = 403 then
           (if code = JStr ''CREDITS_EXHAUSTED'' \<or> code = JStr ''MOF_INSUFFICIENT_CREDITS''
            then Failure (InsufficientCreditsError message code
                   (nullish (get_property data ''available_credits'') (JNum 0))
                   (nullish (get_property data ''required_credits'') (JNum 1)))
            else Failure (AuthenticationError message code))
         else if statusCode = 404 then Failure (NotFoundError message code)
         else if statusCode = 429 then
           Failure (RateLimitError message code
             (nullish (get_property data ''retry_after'') (JNum 1))
             (nullish (get_property data ''current_usage'') (JNum 0))
             (nullish (get_property data ''limit'') (JNum 0)))
         else if statusCode = 400 then Failure (ValidationError message code)
         else Failure (ApiError message code statusCode))"

section \<open>Numbers as text\<close>

text \<open>
  \<open>String(n)\<close> and \<open>`${n}`\<close> for an integer-valued number below \<open>10^21\<close> in magnitude: the
  decimal digits, with a minus sign for a negative one. Page numbers and timeouts are
  integers here.
\<close>

definition digit_char :: "nat \<Rightarrow> char" where
  "digit_char n = ''0123456789'' ! (n mod 10)"

function decimal :: "nat \<Rightarrow> string" where
  "decimal n = (if n < 10 then [digit_char n] else decimal (n div 10) @ [digit_char n])"
  by pat_completeness auto
termination
  by (relation "measure id") auto

declare decimal.simps [simp del]

definition number_to_string :: "int \<Rightarrow> string" where
  "number_to_string n = (if n < 0 then CHR ''-'' # decimal (nat (- n)) else decimal (nat n))"

section \<open>The client and its construction\<close>

text \<open>The configuration object: a field that is left out is \<open>None\<close>.\<close>

record FirmeApiConfig =
  config_apiKey :: "string option"
  config_sandbox :: "bool option"
  config_baseUrl :: "string option"
  config_timeout :: "int option"

record FirmeApi =
  apiKey :: string
  sandbox :: bool
  baseUrl :: string
  timeout :: int

definition DEFAULT_BASE_URL :: string where
  "DEFAULT_BASE_URL = ''https://www.firmeapi.ro/api''"

definition DEFAULT_TIMEOUT :: int where
  "DEFAULT_TIMEOUT = 30000"

text \<open>The constructor: \<open>Inl\<close> is what it throws, \<open>Inr\<close> the instance.\<close>

definition new_FirmeApi :: "FirmeApiConfig \<Rightarrow> thrown + FirmeApi" where
  "new_FirmeApi config =
     (case config_apiKey config of
        None \<Rightarrow> Inl (Failure (ValidationError (JStr ''API key is required'') (JStr ''MISSING_API_KEY'')))
      | Some key \<Rightarrow>
          if key = [] then
            Inl (Failure (ValidationError (JStr ''API key is required'') (JStr ''MISSING_API_KEY'')))
          else
            Inr \<lparr> apiKey = key,
                  sandbox = (case config_sandbox config of None \<Rightarrow> False | Some b \<Rightarrow> b),
                  baseUrl = (case config_baseUrl config of None \<Rightarrow> DEFAULT_BASE_URL | Some u \<Rightarrow> u),
                  timeout = (case config_timeout config of None \<Rightarrow> DEFAULT_TIMEOUT | Some t \<Rightarrow> t) \<rparr>)"

section \<open>Identifier normalisation\<close>

definition is_digit :: "char \<Rightarrow> bool" where
  "is_digit c = (c \<in> set ''0123456789'')"

definition cleanCui :: "string \<Rightarrow> thrown + string" where
  "cleanCui cui =
     (let cleaned = filter is_digit cui
      in if length cleaned < 2 \<or> length cleaned > 10 then
           Inl (Failure (ValidationError (JStr ''CUI must contain between 2 and 10 digits'')
                                         (JStr ''INVALID_CUI_FORMAT'')))
         else Inr cleaned)"

section \<open>The transport\<close>

record http_request =
  url :: string
  http_method :: string
  headers :: "(string \<times> string) list"

text \<open>
  A response is its status and what \<open>response.json()\<close> gives: the decoded body, or what the
  parse step throws. \<open>fetch\<close> is the runtime's: it answers a request with a response or
  throws (an \<open>AbortError\<close> when the deadline's abort fires first).
\<close>

record http_response =
  status :: int
  json_result :: "thrown + json"

definition ok :: "http_response \<Rightarrow> bool" where
  "ok response = (200 \<le> status response \<and> status response \<le> 299)"

type_synonym fetch = "http_request \<Rightarrow> thrown + http_response"

record request_options =
  isFreeApi :: "bool option"

definition request_headers :: "FirmeApi \<Rightarrow> request_options \<Rightarrow> (string \<times> string) list" where
  "request_headers client options =
     (let h0 = [(''Content-Type'', ''application/json''),
                (''Accept'', ''application/json''),
                (''User-Agent'', ''firmeapi-node/1.0.0'')];
          h1 = AList.update ''X-API-KEY'' (apiKey client) h0
      in if sandbox client \<and> \<not> (case isFreeApi options of None \<Rightarrow> False | Some b \<Rightarrow> b)
         then AList.update ''X-Sandbox'' ''true'' h1
         else h1)"

text \<open>The body of the \<open>try\<close> block, from the outcome of \<open>fetch\<close> on.\<close>

fun request_try :: "thrown + http_response \<Rightarrow> thrown + json" where
  "request_try (Inl e) = Inl e"
| "request_try (Inr response) =
     (case json_result response of
        Inl e \<Rightarrow> Inl e
      | Inr data \<Rightarrow>
          if \<not> ok response then Inl (handleErrorResponse (status response) data)
          else Inr data)"

text \<open>The \<open>catch\<close> block: what it throws for what it caught.\<close>

fun request_catch :: "FirmeApi \<Rightarrow> thrown \<Rightarrow> thrown" where
  "request_catch client (Failure e) = Failure e"
| "request_catch client (JsError name msg) =
     (if name = ''AbortError'' then
        Failure (TimeoutError (''Request timed out after '' @ number_to_string (timeout client) @ ''ms''))
      else Failure (NetworkError msg))"
| "request_catch client (NonError v) = Failure (NetworkError ''An unknown error occurred'')"

text \<open>
  \<open>outgoing\<close> is the request that \<open>request\<close> builds and hands to \<open>fetch\<close>; \<open>request\<close> gives
  the requests it issued, in order, and its outcome.
\<close>

definition outgoing :: "FirmeApi \<Rightarrow> string \<Rightarrow> request_options \<Rightarrow> http_request" where
  "outgoing client endpoint options =
     \<lparr> url = baseUrl client @ endpoint, http_method = ''GET'',
       headers = request_headers client options \<rparr>"

definition request :: "FirmeApi \<Rightarrow> fetch \<Rightarrow> string \<Rightarrow> request_options
    \<Rightarrow> http_request list \<times> (thrown + json)" where
  "request client fetch endpoint options =
     (let req = outgoing client endpoint options
      in ([req],
          case request_try (fetch req) of
            Inl error \<Rightarrow> Inl (request_catch client error)
          | Inr data \<Rightarrow> Inr data))"

section \<open>The call catalogue\<close>

text \<open>\<open>response.data\<close> on what \<open>request\<close> returned.\<close>

fun response_data :: "json \<Rightarrow> thrown + json option" where
  "response_data JNull = Inl (null_read ''data'')"
| "response_data response = Inr (get_property response ''data'')"

definition unwrap :: "http_request list \<times> (thrown + json)
    \<Rightarrow> http_request list \<times> (thrown + json option)" where
  "unwrap r = (case r of (calls, Inl e) \<Rightarrow> (calls, Inl e)
                       | (calls, Inr response) \<Rightarrow> (calls, response_data response))"

definition getCompany :: "FirmeApi \<Rightarrow> fetch \<Rightarrow> string
    \<Rightarrow> http_request list \<times> (thrown + json option)" where
  "getCompany client fetch cui =
     (case cleanCui cui of
        Inl e \<Rightarrow> ([], Inl e)
      | Inr cleaned \<Rightarrow>
          unwrap (request client fetch (''/v1/firma/'' @ cleaned) \<lparr> isFreeApi = None \<rparr>))"

definition getBilant :: "FirmeApi \<Rightarrow> fetch \<Rightarrow> string
    \<Rightarrow> http_request list \<times> (thrown + json option)" where
  "getBilant client fetch cui =
     (case cleanCui cui of
        Inl e \<Rightarrow> ([], Inl e)
      | Inr cleaned \<Rightarrow>
          unwrap (request client fetch (''/v1/bilant/'' @ cleaned) \<lparr> isFreeApi = None \<rparr>))"

definition getRestante :: "FirmeApi \<Rightarrow> fetch \<Rightarrow> string
    \<Rightarrow> http_request list \<times> (thrown + json option)" where
  "getRestante client fetch cui =
     (case cleanCui cui of
        Inl e \<Rightarrow> ([], Inl e)
      | Inr cleaned \<Rightarrow>
          unwrap (request client fetch (''/v1/restante/'' @ cleaned) \<lparr> isFreeApi = None \<rparr>))"

definition getMof :: "FirmeApi \<Rightarrow> fetch \<Rightarrow> string
    \<Rightarrow> http_request list \<times> (thrown + json option)" where
  "getMof client fetch cui =
     (case cleanCui cui of
        Inl e \<Rightarrow> ([], Inl e)
      | Inr cleaned \<Rightarrow>
          unwrap (request client fetch (''/v1/mof/'' @ cleaned) \<lparr> isFreeApi = None \<rparr>))"

definition getFreeCompany :: "FirmeApi \<Rightarrow> fetch \<Rightarrow> string
    \<Rightarrow> http_request list \<times> (thrown + json option)" where
  "getFreeCompany client fetch cui =
     (case cleanCui cui of
        Inl e \<Rightarrow> ([], Inl e)
      | Inr cleaned \<Rightarrow>
          unwrap (request client fetch (''/free/firma/'' @ cleaned) \<lparr> isFreeApi = Some True \<rparr>))"

definition getFreeApiUsage :: "FirmeApi \<Rightarrow> fetch
    \<Rightarrow> http_request list \<times> (thrown + json option)" where
  "getFreeApiUsage client fetch =
     unwrap (request client fetch ''/free/usage'' \<lparr> isFreeApi = Some True \<rparr>)"

section \<open>Search\<close>

record SearchFilters =
  q :: "string option"
  judet :: "string option"
  localitate :: "string option"
  caen :: "string option"
  stare :: "string option"
  data :: "string option"
  data_start :: "string option"
  data_end :: "string option"
  tva :: "bool option"
  telefon :: "bool option"
  page :: "int option"

text \<open>
  \<open>URLSearchParams\<close>: the list of name-value pairs. \<open>set\<close> overwrites the first pair of that
  name and removes the others, or appends a new pair.
\<close>

fun set_first :: "string \<Rightarrow> string \<Rightarrow> (string \<times> string) list \<Rightarrow> (string \<times> string) list" where
  "set_first k v [] = []"
| "set_first k v (p # ps) =
     (if fst p = k then (k, v) # filter (\<lambda>p'. fst p' \<noteq> k) ps else p # set_first k v ps)"

definition params_set :: "string \<Rightarrow> string \<Rightarrow> (string \<times> string) list \<Rightarrow> (string \<times> string) list" where
  "params_set k v ps = (if k \<in> fst ` set ps then set_first k v ps else ps @ [(k, v)])"

text \<open>
  \<open>toString\<close> is the form-urlencoded serialiser: a space becomes \<open>+\<close>, the ASCII letters and
  digits and \<open>* - . _\<close> stay, every other byte becomes \<open>%\<close> and two upper-case hex digits;
  a pair is \<open>name=value\<close>, pairs are joined with \<open>&\<close>.
\<close>

definition unreserved :: "char \<Rightarrow> bool" where
  "unreserved c =
     (c \<in> set ''ABCDEFGHIJKLMNOPQRSTUVWXYZabcdefghijklmnopqrstuvwxyz0123456789*-._'')"

definition hex_digit :: "nat \<Rightarrow> char" where
  "hex_digit n = ''0123456789ABCDEF'' ! (n mod 16)"

definition urlencode_byte :: "char \<Rightarrow> string" where
  "urlencode_byte c =
     (if c = CHR '' '' then ''+''
      else if unreserved c then [c]
      else [CHR ''%'', hex_digit (of_char c div 16), hex_digit (of_char c)])"

definition urlencode :: "string \<Rightarrow> string" where
  "urlencode s = concat (map urlencode_byte s)"

fun join_amp :: "string list \<Rightarrow> string" where
  "join_amp [] = []"
| "join_amp [x] = x"
| "join_amp (x # y # ys) = x @ ''&'' @ join_amp (y # ys)"

definition params_toString :: "(string \<times> string) list \<Rightarrow> string" where
  "params_toString ps = join_amp (map (\<lambda>(k, v). urlencode k @ ''='' @ urlencode v) ps)"

text \<open>The eleven conditional \<open>params.set\<close> statements, in the order of the source.\<close>

definition set_string :: "string \<Rightarrow> string option \<Rightarrow> (string \<times> string) list \<Rightarrow> (string \<times> string) list" where
  "set_string k f ps = (case f of None \<Rightarrow> ps | Some s \<Rightarrow> if s \<noteq> [] then params_set k s ps else ps)"

definition set_flag :: "string \<Rightarrow> bool option \<Rightarrow> (string \<times> string) list \<Rightarrow> (string \<times> string) list" where
  "set_flag k f ps = (case f of None \<Rightarrow> ps | Some b \<Rightarrow> params_set k (if b then ''1'' else ''0'') ps)"

definition set_page :: "int option \<Rightarrow> (string \<times> string) list \<Rightarrow> (string \<times> string) list" where
  "set_page f ps = (case f of None \<Rightarrow> ps | Some n \<Rightarrow> if n \<noteq> 0 then params_set ''page'' (number_to_string n) ps else ps)"

definition search_params :: "SearchFilters \<Rightarrow> (string \<times> string) list" where
  "search_params filters =
     (set_page (page filters)
     (set_flag ''telefon'' (telefon filters)
     (set_flag ''tva'' (tva filters)
     (set_string ''data_end'' (data_end filters)
     (set_string ''data_start'' (data_start filters)
     (set_string ''data'' (data filters)
     (set_string ''stare'' (stare filters)
     (set_string ''caen'' (caen filters)
     (set_string ''localitate'' (localitate filters)
     (set_string ''judet'' (judet filters)
     (set_string ''q'' (q filters) [])))))))))))"

definition search_url :: "SearchFilters \<Rightarrow> string" where
  "search_url filters =
     (let queryString = params_toString (search_params filters)
      in ''/v1/firme'' @ (if queryString \<noteq> [] then ''?'' @ queryString else []))"

definition searchCompanies :: "FirmeApi \<Rightarrow> fetch \<Rightarrow> SearchFilters
    \<Rightarrow> http_request list \<times> (thrown + json option)" where
  "searchCompanies client fetch filters =
     unwrap (request client fetch (search_url filters) \<lparr> isFreeApi = None \<rparr>)"

section \<open>Vocabulary of the statements\<close>

text \<open>
  The status table of the specification: the failure kind, as the class name, for a status
  code and a machine code.
\<close>

definition classification_table :: "int \<Rightarrow> json \<Rightarrow> string" where
  "classification_table s c =
     (if s = 401 then ''AuthenticationError''
      else if s = 403 \<and> (c = JStr ''CREDITS_EXHAUSTED'' \<or> c = JStr ''MOF_INSUFFICIENT_CREDITS'')
        then ''InsufficientCreditsError''
      else if s = 403 then ''AuthenticationError''
      else if s = 404 then ''NotFoundError''
      else if s = 429 then ''RateLimitError''
      else if s = 400 then ''ValidationError''
      else ''ApiError'')"

text \<open>
  Reading an extra field with a default: the default stands in for a field that is absent or
  \<open>null\<close>, and any other supplied value is handed on as it is.
\<close>

definition reads_field :: "json option \<Rightarrow> json \<Rightarrow> json option \<Rightarrow> bool" where
  "reads_field supplied dflt result =
     (if supplied = None \<or> supplied = Some JNull then result = Some dflt else result = supplied)"

text \<open>
  Reading a request's header, and the four headers every request carries: content type,
  accept, client identification and the credential.
\<close>

definition header :: "http_request \<Rightarrow> string \<Rightarrow> string option" where
  "header req k = map_of (headers req) k"

definition fixed_headers :: "FirmeApi \<Rightarrow> http_request \<Rightarrow> bool" where
  "fixed_headers client req =
     (header req ''Content-Type'' = Some ''application/json'' \<and>
      header req ''Accept'' = Some ''application/json'' \<and>
      header req ''User-Agent'' = Some ''firmeapi-node/1.0.0'' \<and>
      header req ''X-API-KEY'' = Some (apiKey client))"

text \<open>
  What a standard-tier request and a free-tier request carry: the sandbox header exactly in
  sandbox mode, and never.
\<close>

definition standard_headers :: "FirmeApi \<Rightarrow> http_request \<Rightarrow> bool" where
  "standard_headers client req =
     ((header req ''X-Sandbox'' \<noteq> None \<longleftrightarrow> sandbox client) \<and> fixed_headers client req)"

definition free_headers :: "FirmeApi \<Rightarrow> http_request \<Rightarrow> bool" where
  "free_headers client req = (header req ''X-Sandbox'' = None \<and> fixed_headers client req)"

text \<open>
  The two validation failures the client raises by itself.
\<close>

definition invalid_cui :: thrown where
  "invalid_cui =
     Failure (ValidationError (JStr ''CUI must contain between 2 and 10 digits'') (JStr ''INVALID_CUI_FORMAT''))"

definition missing_api_key :: thrown where
  "missing_api_key = Failure (ValidationError (JStr ''API key is required'') (JStr ''MISSING_API_KEY''))"

text \<open>
  The pairs one filter contributes to the query: a string filter that is set and not empty,
  a flag that is set, a page number that is set and not zero.
\<close>

definition string_pair :: "string \<Rightarrow> string option \<Rightarrow> (string \<times> string) list" where
  "string_pair k f = (case f of None \<Rightarrow> [] | Some s \<Rightarrow> if s = [] then [] else [(k, s)])"

definition flag_pair :: "string \<Rightarrow> bool option \<Rightarrow> (string \<times> string) list" where
  "flag_pair k f = (case f of None \<Rightarrow> [] | Some b \<Rightarrow> [(k, if b then ''1'' else ''0'')])"

definition page_pair :: "int option \<Rightarrow> (string \<times> string) list" where
  "page_pair f = (case f of None \<Rightarrow> [] | Some n \<Rightarrow> if n = 0 then [] else [(''page'', number_to_string n)])"

text \<open>
  The key order of the specification, the value a present filter is sent with, and the empty
  filter set.
\<close>

definition search_keys :: "string list" where
  "search_keys = [''q'', ''judet'', ''localitate'', ''caen'', ''stare'', ''data'', ''data_start'',
                  ''data_end'', ''tva'', ''telefon'', ''page'']"

definition filter_value :: "SearchFilters \<Rightarrow> string \<Rightarrow> string option" where
  "filter_value f k =
     (if k = ''q'' then q f
      else if k = ''judet'' then judet f
      else if k = ''localitate'' then localitate f
      else if k = ''caen'' then caen f
      else if k = ''stare'' then stare f
      else if k = ''data'' then data f
      else if k = ''data_start'' then data_start f
      else if k = ''data_end'' then data_end f
      else if k = ''tva'' then map_option (\<lambda>b. if b then ''1'' else ''0'') (tva f)
      else if k = ''telefon'' then map_option (\<lambda>b. if b then ''1'' else ''0'') (telefon f)
      else if k = ''page'' then map_option number_to_string (page f)
      else None)"

definition no_filters :: SearchFilters where
  "no_filters = \<lparr> q = None, judet = None, localitate = None, caen = None, stare = None, data = None,
                  data_start = None, data_end = None, tva = None, telefon = None, page = None \<rparr>"

section \<open>Facts about the transport and the classification\<close>

lemma request_calls: "fst (request client fetch endpoint options) = [outgoing client endpoint options]"
  by (simp add: request_def Let_def)

lemma request_outcome:
  "snd (request client fetch endpoint options) =
     (case request_try (fetch (outgoing client endpoint options)) of
        Inl x \<Rightarrow> Inl (request_catch client x) | Inr d \<Rightarrow> Inr d)"
  by (simp add: request_def Let_def)

lemma logical_or_falsy: "\<not> truthy a \<Longrightarrow> logical_or a d = d"
  by (cases a) simp_all

lemma handle_is_failure: "\<exists>e. handleErrorResponse s (JObj kvs) = Failure e"
  by (simp add: Let_def)

lemma handle_name:
  "handleErrorResponse s (JObj kvs) = Failure e \<Longrightarrow> name_of e = classification_table s (code_of e)"
  by (auto simp add: Let_def classification_table_def split: if_splits)

lemma handle_code:
  "handleErrorResponse s (JObj kvs) = Failure e \<Longrightarrow> code_of e = logical_or (map_of kvs ''code'') (JStr ''UNKNOWN_ERROR'')"
  by (auto simp add: Let_def split: if_splits)

lemma handle_message:
  "handleErrorResponse s (JObj kvs) = Failure e \<Longrightarrow>
     message_of e = logical_or (map_of kvs ''message'') (logical_or (map_of kvs ''error'') (JStr ''Unknown error''))"
  by (auto simp add: Let_def split: if_splits)

lemma handle_api_status:
  "handleErrorResponse s (JObj kvs) = Failure e \<Longrightarrow> name_of e = ''ApiError'' \<Longrightarrow> statusCode_of e = s"
  by (auto simp add: Let_def split: if_splits)

lemma handle_credits:
  "handleErrorResponse s (JObj kvs) = Failure e \<Longrightarrow> name_of e = ''InsufficientCreditsError'' \<Longrightarrow>
     availableCredits e = Some (nullish (map_of kvs ''available_credits'') (JNum 0)) \<and>
     requiredCredits e = Some (nullish (map_of kvs ''required_credits'') (JNum 1))"
  by (auto simp add: Let_def split: if_splits)

lemma handle_rate:
  "handleErrorResponse s (JObj kvs) = Failure e \<Longrightarrow> name_of e = ''RateLimitError'' \<Longrightarrow>
     retryAfter e = Some (nullish (map_of kvs ''retry_after'') (JNum 1)) \<and>
     currentUsage e = Some (nullish (map_of kvs ''current_usage'') (JNum 0)) \<and>
     limit_of e = Some (nullish (map_of kvs ''limit'') (JNum 0))"
  by (auto simp add: Let_def split: if_splits)

lemma request_error_response:
  assumes "fetch (outgoing client endpoint options) = Inr response"
    and "\<not> ok response" and "json_result response = Inr (JObj kvs)"
  shows "snd (request client fetch endpoint options) = Inl (handleErrorResponse (status response) (JObj kvs))"
proof -
  obtain e where e: "handleErrorResponse (status response) (JObj kvs) = Failure e"
    using handle_is_failure by blast
  have "request_try (fetch (outgoing client endpoint options)) = Inl (Failure e)"
    using assms e by simp
  then show ?thesis using e by (simp add: request_outcome)
qed

lemma reads_field_nullish: "reads_field a d (Some (nullish a d))"
proof (cases a)
  case None
  then show ?thesis by (simp add: reads_field_def)
next
  case (Some v)
  then show ?thesis by (cases v) (simp_all add: reads_field_def)
qed

subsection \<open>The calls of each operation\<close>

lemma fst_unwrap: "fst (unwrap r) = fst r"
  by (cases r) (simp add: unwrap_def split: sum.splits)

lemma cleanCui_invalid:
  "length (filter is_digit cui) < 2 \<or> 10 < length (filter is_digit cui) \<Longrightarrow>
     cleanCui cui = Inl (Failure (ValidationError (JStr ''CUI must contain between 2 and 10 digits'') (JStr ''INVALID_CUI_FORMAT'')))"
  by (simp add: cleanCui_def Let_def)

lemma cleanCui_valid:
  "2 \<le> length (filter is_digit cui) \<Longrightarrow> length (filter is_digit cui) \<le> 10 \<Longrightarrow>
     cleanCui cui = Inr (filter is_digit cui)"
  by (simp add: cleanCui_def Let_def)

lemma outgoing_url: "url (outgoing client endpoint options) = baseUrl client @ endpoint"
  by (simp add: outgoing_def)

lemma headers_fixed: "fixed_headers client (outgoing client endpoint options)"
  by (simp add: fixed_headers_def header_def outgoing_def request_headers_def Let_def)

lemma headers_sandbox:
  "header (outgoing client endpoint options) ''X-Sandbox'' =
     (if sandbox client \<and> isFreeApi options \<noteq> Some True then Some ''true'' else None)"
  by (cases "isFreeApi options") (auto simp add: header_def outgoing_def request_headers_def Let_def)

text \<open>The calls of each operation: none, or the one request of its path and tier.\<close>

lemma getCompany_calls:
  "fst (getCompany client fetch cui) =
     (case cleanCui cui of Inl e \<Rightarrow> []
      | Inr cleaned \<Rightarrow> [outgoing client (''/v1/firma/'' @ cleaned) \<lparr> isFreeApi = None \<rparr>])"
  by (simp add: getCompany_def fst_unwrap request_calls split: sum.splits)

lemma getBilant_calls:
  "fst (getBilant client fetch cui) =
     (case cleanCui cui of Inl e \<Rightarrow> []
      | Inr cleaned \<Rightarrow> [outgoing client (''/v1/bilant/'' @ cleaned) \<lparr> isFreeApi = None \<rparr>])"
  by (simp add: getBilant_def fst_unwrap request_calls split: sum.splits)

lemma getRestante_calls:
  "fst (getRestante client fetch cui) =
     (case cleanCui cui of Inl e \<Rightarrow> []
      | Inr cleaned \<Rightarrow> [outgoing client (''/v1/restante/'' @ cleaned) \<lparr> isFreeApi = None \<rparr>])"
  by (simp add: getRestante_def fst_unwrap request_calls split: sum.splits)

lemma getMof_calls:
  "fst (getMof client fetch cui) =
     (case cleanCui cui of Inl e \<Rightarrow> []
      | Inr cleaned \<Rightarrow> [outgoing client (''/v1/mof/'' @ cleaned) \<lparr> isFreeApi = None \<rparr>])"
  by (simp add: getMof_def fst_unwrap request_calls split: sum.splits)

lemma getFreeCompany_calls:
  "fst (getFreeCompany client fetch cui) =
     (case cleanCui cui of Inl e \<Rightarrow> []
      | Inr cleaned \<Rightarrow> [outgoing client (''/free/firma/'' @ cleaned) \<lparr> isFreeApi = Some True \<rparr>])"
  by (simp add: getFreeCompany_def fst_unwrap request_calls split: sum.splits)

lemma getFreeApiUsage_calls:
  "fst (getFreeApiUsage client fetch) = [outgoing client ''/free/usage'' \<lparr> isFreeApi = Some True \<rparr>]"
  by (simp add: getFreeApiUsage_def fst_unwrap request_calls)

lemma searchCompanies_calls:
  "fst (searchCompanies client fetch filters) = [outgoing client (search_url filters) \<lparr> isFreeApi = None \<rparr>]"
  by (simp add: searchCompanies_def fst_unwrap request_calls)

lemma invalid_outcomes:
  assumes "cleanCui cui = Inl x"
  shows "getCompany client fetch cui = ([], Inl x)"
    and "getBilant client fetch cui = ([], Inl x)"
    and "getRestante client fetch cui = ([], Inl x)"
    and "getMof client fetch cui = ([], Inl x)"
    and "getFreeCompany client fetch cui = ([], Inl x)"
  using assms
  by (simp_all add: getCompany_def getBilant_def getRestante_def getMof_def getFreeCompany_def)

lemma standard_request: "standard_headers client (outgoing client endpoint \<lparr> isFreeApi = None \<rparr>)"
  by (simp add: standard_headers_def headers_sandbox headers_fixed)

lemma free_request: "free_headers client (outgoing client endpoint \<lparr> isFreeApi = Some True \<rparr>)"
  by (simp add: free_headers_def headers_sandbox headers_fixed)

subsection \<open>The search query\<close>

lemma params_set_fresh: "k \<notin> fst ` set ps \<Longrightarrow> params_set k v ps = ps @ [(k, v)]"
  by (simp add: params_set_def)

lemma set_string_fresh: "k \<notin> fst ` set ps \<Longrightarrow> set_string k f ps = ps @ string_pair k f"
  by (simp add: set_string_def string_pair_def params_set_fresh split: option.splits)

lemma set_flag_fresh: "k \<notin> fst ` set ps \<Longrightarrow> set_flag k f ps = ps @ flag_pair k f"
  by (simp add: set_flag_def flag_pair_def params_set_fresh split: option.splits)

lemma set_page_fresh: "''page'' \<notin> fst ` set ps \<Longrightarrow> set_page f ps = ps @ page_pair f"
  by (simp add: set_page_def page_pair_def params_set_fresh split: option.splits)

lemma string_pair_key: "k' \<noteq> k \<Longrightarrow> k' \<notin> fst ` set (string_pair k f)"
  by (cases f) (auto simp add: string_pair_def)

lemma flag_pair_key: "k' \<noteq> k \<Longrightarrow> k' \<notin> fst ` set (flag_pair k f)"
  by (cases f) (auto simp add: flag_pair_def)

lemma page_pair_key: "k' \<noteq> ''page'' \<Longrightarrow> k' \<notin> fst ` set (page_pair f)"
  by (cases f) (auto simp add: page_pair_def)

lemma flag_pair_None: "flag_pair k None = []"
  by (simp add: flag_pair_def)

lemma search_params_pairs:
  "search_params f =
     string_pair ''q'' (q f) @ string_pair ''judet'' (judet f) @
     string_pair ''localitate'' (localitate f) @ string_pair ''caen'' (caen f) @
     string_pair ''stare'' (stare f) @ string_pair ''data'' (data f) @
     string_pair ''data_start'' (data_start f) @ string_pair ''data_end'' (data_end f) @
     flag_pair ''tva'' (tva f) @ flag_pair ''telefon'' (telefon f) @ page_pair (page f)"
  by (simp add: search_params_def set_string_fresh set_flag_fresh set_page_fresh
        string_pair_key flag_pair_key image_Un)

lemma string_pair_keys: "subseq (map fst (string_pair k f)) [k]"
  by (cases f) (simp_all add: string_pair_def)

lemma flag_pair_keys: "subseq (map fst (flag_pair k f)) [k]"
  by (cases f) (simp_all add: flag_pair_def)

lemma page_pair_keys: "subseq (map fst (page_pair f)) [''page'']"
  by (cases f) (simp_all add: page_pair_def)

lemma search_params_keys: "subseq (map fst (search_params f)) search_keys"
proof -
  have "subseq
      (map fst (string_pair ''q'' (q f)) @ map fst (string_pair ''judet'' (judet f)) @
       map fst (string_pair ''localitate'' (localitate f)) @ map fst (string_pair ''caen'' (caen f)) @
       map fst (string_pair ''stare'' (stare f)) @ map fst (string_pair ''data'' (data f)) @
       map fst (string_pair ''data_start'' (data_start f)) @ map fst (string_pair ''data_end'' (data_end f)) @
       map fst (flag_pair ''tva'' (tva f)) @ map fst (flag_pair ''telefon'' (telefon f)) @
       map fst (page_pair (page f)))
      ([''q''] @ [''judet''] @ [''localitate''] @ [''caen''] @ [''stare''] @ [''data''] @
       [''data_start''] @ [''data_end''] @ [''tva''] @ [''telefon''] @ [''page''])"
    by (intro list_emb_append_mono string_pair_keys flag_pair_keys page_pair_keys)
  then show ?thesis
    by (simp add: search_params_pairs search_keys_def)
qed

lemma string_pair_member: "(k', v) \<in> set (string_pair k f) \<Longrightarrow> k' = k \<and> f = Some v"
  by (cases f) (auto simp add: string_pair_def split: if_splits)

lemma flag_pair_member:
  "(k', v) \<in> set (flag_pair k f) \<Longrightarrow> k' = k \<and> map_option (\<lambda>b. if b then ''1'' else ''0'') f = Some v"
  by (cases f) (auto simp add: flag_pair_def split: if_splits)

lemma page_pair_member:
  "(k', v) \<in> set (page_pair f) \<Longrightarrow> k' = ''page'' \<and> map_option number_to_string f = Some v"
  by (cases f) (auto simp add: page_pair_def split: if_splits)

lemma search_params_member:
  assumes "(k, v) \<in> set (search_params f)"
  shows "filter_value f k = Some v"
proof -
  from assms consider
      "(k, v) \<in> set (string_pair ''q'' (q f))"
    | "(k, v) \<in> set (string_pair ''judet'' (judet f))"
    | "(k, v) \<in> set (string_pair ''localitate'' (localitate f))"
    | "(k, v) \<in> set (string_pair ''caen'' (caen f))"
    | "(k, v) \<in> set (string_pair ''stare'' (stare f))"
    | "(k, v) \<in> set (string_pair ''data'' (data f))"
    | "(k, v) \<in> set (string_pair ''data_start'' (data_start f))"
    | "(k, v) \<in> set (string_pair ''data_end'' (data_end f))"
    | "(k, v) \<in> set (flag_pair ''tva'' (tva f))"
    | "(k, v) \<in> set (flag_pair ''telefon'' (telefon f))"
    | "(k, v) \<in> set (page_pair (page f))"
    unfolding search_params_pairs set_append Un_iff by blast
  then show ?thesis
  proof cases
    case 1 then show ?thesis using string_pair_member [OF 1] by (simp add: filter_value_def)
  next
    case 2 then show ?thesis using string_pair_member [OF 2] by (simp add: filter_value_def)
  next
    case 3 then show ?thesis using string_pair_member [OF 3] by (simp add: filter_value_def)
  next
    case 4 then show ?thesis using string_pair_member [OF 4] by (simp add: filter_value_def)
  next
    case 5 then show ?thesis using string_pair_member [OF 5] by (simp add: filter_value_def)
  next
    case 6 then show ?thesis using string_pair_member [OF 6] by (simp add: filter_value_def)
  next
    case 7 then show ?thesis using string_pair_member [OF 7] by (simp add: filter_value_def)
  next
    case 8 then show ?thesis using string_pair_member [OF 8] by (simp add: filter_value_def)
  next
    case 9 then show ?thesis using flag_pair_member [OF 9] by (simp add: filter_value_def)
  next
    case 10 then show ?thesis using flag_pair_member [OF 10] by (simp add: filter_value_def)
  next
    case 11 then show ?thesis using page_pair_member [OF 11] by (simp add: filter_value_def)
  qed
qed

lemma join_amp_empty: "join_amp xs = [] \<Longrightarrow> xs = [] \<or> xs = [[]]"
  by (induction xs rule: join_amp.induct) simp_all

lemma params_toString_empty: "params_toString ps = [] \<longleftrightarrow> ps = []"
proof
  assume "params_toString ps = []"
  then have "map (\<lambda>(k, v). urlencode k @ ''='' @ urlencode v) ps = [] \<or>
             map (\<lambda>(k, v). urlencode k @ ''='' @ urlencode v) ps = [[]]"
    unfolding params_toString_def by (rule join_amp_empty)
  then show "ps = []"
    by (cases ps) (auto split: prod.splits)
next
  assume "ps = []"
  then show "params_toString ps = []" by (simp add: params_toString_def)
qed

lemma search_url_query:
  "search_url f =
     ''/v1/firme'' @ (if search_params f = [] then [] else ''?'' @ params_toString (search_params f))"
  by (simp add: search_url_def Let_def params_toString_empty)

lemma number_to_string_2: "number_to_string 2 = ''2''"
  by (simp add: number_to_string_def decimal.simps digit_char_def)

lemma search_url_example:
  "search_url (no_filters \<lparr> judet := Some ''B'', tva := Some True, page := Some 2 \<rparr>) =
     ''/v1/firme?judet=B&tva=1&page=2''"
  by (simp add: search_url_query search_params_pairs no_filters_def string_pair_def flag_pair_def
        page_pair_def number_to_string_2 params_toString_def urlencode_def urlencode_byte_def
        unreserved_def)

section \<open>The claims\<close>

text \<open>
  C1: a completed exchange with a status outside 200..299 and a decoded error envelope ends
  in exactly one typed failure, the one \<open>handleErrorResponse\<close> throws. Its kind is the
  table's entry for the status code and the machine code (which matters at 403 only); the
  generic kind carries the status code; the credit and rate-limit kinds carry the defaults
  0, 1 and 1, 0, 0 for the fields the envelope leaves out.
\<close>

theorem classification_by_status:
  assumes "fetch (outgoing client endpoint options) = Inr response"
    and "\<not> ok response"
    and "json_result response = Inr (JObj kvs)"
  shows "\<exists>e. snd (request client fetch endpoint options) = Inl (Failure e) \<and>
           handleErrorResponse (status response) (JObj kvs) = Failure e \<and>
           name_of e = classification_table (status response) (code_of e) \<and>
           (name_of e = ''ApiError'' \<longrightarrow> statusCode_of e = status response) \<and>
           (name_of e = ''InsufficientCreditsError'' \<longrightarrow>
              (map_of kvs ''available_credits'' = None \<longrightarrow> availableCredits e = Some (JNum 0)) \<and>
              (map_of kvs ''required_credits'' = None \<longrightarrow> requiredCredits e = Some (JNum 1))) \<and>
           (name_of e = ''RateLimitError'' \<longrightarrow>
              (map_of kvs ''retry_after'' = None \<longrightarrow> retryAfter e = Some (JNum 1)) \<and>
              (map_of kvs ''current_usage'' = None \<longrightarrow> currentUsage e = Some (JNum 0)) \<and>
              (map_of kvs ''limit'' = None \<longrightarrow> limit_of e = Some (JNum 0)))"
proof -
  obtain e where e: "handleErrorResponse (status response) (JObj kvs) = Failure e"
    using handle_is_failure by blast
  have out: "snd (request client fetch endpoint options) = Inl (Failure e)"
    using request_error_response [of fetch client endpoint options response kvs] assms e by simp
  have name: "name_of e = classification_table (status response) (code_of e)"
    by (rule handle_name [OF e])
  have api: "name_of e = ''ApiError'' \<longrightarrow> statusCode_of e = status response"
    using handle_api_status [OF e] by blast
  have credits: "name_of e = ''InsufficientCreditsError'' \<longrightarrow>
              (map_of kvs ''available_credits'' = None \<longrightarrow> availableCredits e = Some (JNum 0)) \<and>
              (map_of kvs ''required_credits'' = None \<longrightarrow> requiredCredits e = Some (JNum 1))"
    using handle_credits [OF e] by simp
  have rate: "name_of e = ''RateLimitError'' \<longrightarrow>
              (map_of kvs ''retry_after'' = None \<longrightarrow> retryAfter e = Some (JNum 1)) \<and>
              (map_of kvs ''current_usage'' = None \<longrightarrow> currentUsage e = Some (JNum 0)) \<and>
              (map_of kvs ''limit'' = None \<longrightarrow> limit_of e = Some (JNum 0))"
    using handle_rate [OF e] by simp
  show ?thesis
    by (intro exI [of _ e] conjI) (rule out e name api credits rate)+
qed

theorem classification_by_status_witness:
  "\<not> ok \<lparr> status = 403, json_result = Inr (JObj [(''code'', JStr ''CREDITS_EXHAUSTED'')]) \<rparr> \<and>
   snd (request \<lparr> apiKey = ''key'', sandbox = False, baseUrl = ''https://www.firmeapi.ro/api'', timeout = 30000 \<rparr>
          (\<lambda>r. Inr \<lparr> status = 403, json_result = Inr (JObj [(''code'', JStr ''CREDITS_EXHAUSTED'')]) \<rparr>)
          ''/v1/firma/12345678'' \<lparr> isFreeApi = None \<rparr>) =
     Inl (Failure (InsufficientCreditsError (JStr ''Unknown error'') (JStr ''CREDITS_EXHAUSTED'') (JNum 0) (JNum 1))) \<and>
   \<not> ok \<lparr> status = 503, json_result = Inr (JObj [(''message'', JStr ''Maintenance'')]) \<rparr> \<and>
   snd (request \<lparr> apiKey = ''key'', sandbox = False, baseUrl = ''https://www.firmeapi.ro/api'', timeout = 30000 \<rparr>
          (\<lambda>r. Inr \<lparr> status = 503, json_result = Inr (JObj [(''message'', JStr ''Maintenance'')]) \<rparr>)
          ''/free/usage'' \<lparr> isFreeApi = Some True \<rparr>) =
     Inl (Failure (ApiError (JStr ''Maintenance'') (JStr ''UNKNOWN_ERROR'') 503))"
  using classification_by_status
    [of "\<lambda>r. Inr \<lparr> status = 403, json_result = Inr (JObj [(''code'', JStr ''CREDITS_EXHAUSTED'')]) \<rparr>"
        "\<lparr> apiKey = ''key'', sandbox = False, baseUrl = ''https://www.firmeapi.ro/api'', timeout = 30000 \<rparr>"
        "''/v1/firma/12345678''" "\<lparr> isFreeApi = None \<rparr>"
        "\<lparr> status = 403, json_result = Inr (JObj [(''code'', JStr ''CREDITS_EXHAUSTED'')]) \<rparr>"
        "[(''code'', JStr ''CREDITS_EXHAUSTED'')]"]
    classification_by_status
    [of "\<lambda>r. Inr \<lparr> status = 503, json_result = Inr (JObj [(''message'', JStr ''Maintenance'')]) \<rparr>"
        "\<lparr> apiKey = ''key'', sandbox = False, baseUrl = ''https://www.firmeapi.ro/api'', timeout = 30000 \<rparr>"
        "''/free/usage''" "\<lparr> isFreeApi = Some True \<rparr>"
        "\<lparr> status = 503, json_result = Inr (JObj [(''message'', JStr ''Maintenance'')]) \<rparr>"
        "[(''message'', JStr ''Maintenance'')]"]
  by (auto simp add: ok_def)

text \<open>
  C2: each of the five identifier-taking operations strips the non-digits first. With fewer
  than 2 or more than 10 digits left, the outcome is the validation failure with code
  \<open>INVALID_CUI_FORMAT\<close> and no request is issued; otherwise exactly one request is issued and
  its path ends in the digit string.
\<close>

theorem identifier_validation:
  "(length (filter is_digit cui) < 2 \<or> 10 < length (filter is_digit cui) \<longrightarrow>
      getCompany client fetch cui = ([], Inl invalid_cui) \<and>
      getBilant client fetch cui = ([], Inl invalid_cui) \<and>
      getRestante client fetch cui = ([], Inl invalid_cui) \<and>
      getMof client fetch cui = ([], Inl invalid_cui) \<and>
      getFreeCompany client fetch cui = ([], Inl invalid_cui)) \<and>
   (2 \<le> length (filter is_digit cui) \<and> length (filter is_digit cui) \<le> 10 \<longrightarrow>
      map url (fst (getCompany client fetch cui)) = [baseUrl client @ ''/v1/firma/'' @ filter is_digit cui] \<and>
      map url (fst (getBilant client fetch cui)) = [baseUrl client @ ''/v1/bilant/'' @ filter is_digit cui] \<and>
      map url (fst (getRestante client fetch cui)) = [baseUrl client @ ''/v1/restante/'' @ filter is_digit cui] \<and>
      map url (fst (getMof client fetch cui)) = [baseUrl client @ ''/v1/mof/'' @ filter is_digit cui] \<and>
      map url (fst (getFreeCompany client fetch cui)) = [baseUrl client @ ''/free/firma/'' @ filter is_digit cui])"
proof (intro conjI impI)
  assume bad: "length (filter is_digit cui) < 2 \<or> 10 < length (filter is_digit cui)"
  have c: "cleanCui cui = Inl invalid_cui"
    using cleanCui_invalid [OF bad] by (simp add: invalid_cui_def)
  show "getCompany client fetch cui = ([], Inl invalid_cui)"
    and "getBilant client fetch cui = ([], Inl invalid_cui)"
    and "getRestante client fetch cui = ([], Inl invalid_cui)"
    and "getMof client fetch cui = ([], Inl invalid_cui)"
    and "getFreeCompany client fetch cui = ([], Inl invalid_cui)"
    by (rule invalid_outcomes [OF c])+
next
  assume good: "2 \<le> length (filter is_digit cui) \<and> length (filter is_digit cui) \<le> 10"
  then have c: "cleanCui cui = Inr (filter is_digit cui)"
    by (simp add: cleanCui_valid)
  show "map url (fst (getCompany client fetch cui)) = [baseUrl client @ ''/v1/firma/'' @ filter is_digit cui]"
    by (simp add: getCompany_calls c outgoing_url)
  show "map url (fst (getBilant client fetch cui)) = [baseUrl client @ ''/v1/bilant/'' @ filter is_digit cui]"
    by (simp add: getBilant_calls c outgoing_url)
  show "map url (fst (getRestante client fetch cui)) = [baseUrl client @ ''/v1/restante/'' @ filter is_digit cui]"
    by (simp add: getRestante_calls c outgoing_url)
  show "map url (fst (getMof client fetch cui)) = [baseUrl client @ ''/v1/mof/'' @ filter is_digit cui]"
    by (simp add: getMof_calls c outgoing_url)
  show "map url (fst (getFreeCompany client fetch cui)) = [baseUrl client @ ''/free/firma/'' @ filter is_digit cui]"
    by (simp add: getFreeCompany_calls c outgoing_url)
qed

theorem identifier_validation_witness:
  "length (filter is_digit ''RO 1'') < 2 \<and>
   getCompany \<lparr> apiKey = ''key'', sandbox = False, baseUrl = ''https://www.firmeapi.ro/api'', timeout = 30000 \<rparr>
     (\<lambda>r. Inl (JsError ''TypeError'' ''fetch failed'')) ''RO 1'' = ([], Inl invalid_cui) \<and>
   2 \<le> length (filter is_digit ''RO 12-345-678'') \<and> length (filter is_digit ''RO 12-345-678'') \<le> 10 \<and>
   map url (fst (getFreeCompany \<lparr> apiKey = ''key'', sandbox = False, baseUrl = ''https://www.firmeapi.ro/api'', timeout = 30000 \<rparr>
     (\<lambda>r. Inl (JsError ''TypeError'' ''fetch failed'')) ''RO 12-345-678'')) =
     [''https://www.firmeapi.ro/api/free/firma/12345678'']"
  using identifier_validation [of "''RO 1''"
          "\<lparr> apiKey = ''key'', sandbox = False, baseUrl = ''https://www.firmeapi.ro/api'', timeout = 30000 \<rparr>"
          "\<lambda>r. Inl (JsError ''TypeError'' ''fetch failed'')"]
        identifier_validation [of "''RO 12-345-678''"
          "\<lparr> apiKey = ''key'', sandbox = False, baseUrl = ''https://www.firmeapi.ro/api'', timeout = 30000 \<rparr>"
          "\<lambda>r. Inl (JsError ''TypeError'' ''fetch failed'')"]
  by (simp add: is_digit_def)

text \<open>
  C3: with no credential, or an empty one, construction throws the validation failure with
  code \<open>MISSING_API_KEY\<close>, whatever the other fields are, and there is no instance; with a
  non-empty credential there is an instance, whose sandbox flag, base URL and timeout are
  the given ones, or \<open>False\<close>, the fixed URL and 30000 where none is given.
\<close>

theorem construction:
  "(config_apiKey config = None \<or> config_apiKey config = Some [] \<longrightarrow>
      new_FirmeApi config = Inl missing_api_key) \<and>
   (\<forall>key. config_apiKey config = Some key \<and> key \<noteq> [] \<longrightarrow>
      (\<exists>client. new_FirmeApi config = Inr client \<and> apiKey client = key \<and>
         (config_sandbox config = None \<longrightarrow> sandbox client = False) \<and>
         (config_baseUrl config = None \<longrightarrow> baseUrl client = ''https://www.firmeapi.ro/api'') \<and>
         (config_timeout config = None \<longrightarrow> timeout client = 30000) \<and>
         (\<forall>b. config_sandbox config = Some b \<longrightarrow> sandbox client = b) \<and>
         (\<forall>u. config_baseUrl config = Some u \<longrightarrow> baseUrl client = u) \<and>
         (\<forall>t. config_timeout config = Some t \<longrightarrow> timeout client = t)))"
proof (cases "config_apiKey config")
  case None
  then show ?thesis
    by (simp add: new_FirmeApi_def missing_api_key_def)
next
  case (Some key)
  show ?thesis
  proof (cases "key = []")
    case True
    with Some show ?thesis
      by (simp add: new_FirmeApi_def missing_api_key_def)
  next
    case False
    with Some show ?thesis
      by (auto simp add: new_FirmeApi_def DEFAULT_BASE_URL_def DEFAULT_TIMEOUT_def)
  qed
qed

theorem construction_witness:
  "new_FirmeApi \<lparr> config_apiKey = Some [], config_sandbox = Some True,
                   config_baseUrl = Some ''http://localhost'', config_timeout = Some 5 \<rparr> = Inl missing_api_key \<and>
   new_FirmeApi \<lparr> config_apiKey = Some ''key'', config_sandbox = None,
                   config_baseUrl = None, config_timeout = None \<rparr> =
     Inr \<lparr> apiKey = ''key'', sandbox = False, baseUrl = ''https://www.firmeapi.ro/api'', timeout = 30000 \<rparr>"
  using construction [of "\<lparr> config_apiKey = Some [], config_sandbox = Some True,
                   config_baseUrl = Some ''http://localhost'', config_timeout = Some 5 \<rparr>"]
        construction [of "\<lparr> config_apiKey = Some ''key'', config_sandbox = None,
                   config_baseUrl = None, config_timeout = None \<rparr>"]
  by auto

text \<open>
  C4: a request carries the sandbox header exactly when the client is in sandbox mode and
  the call is not a free-tier one; the requests of the two free-tier operations never carry
  it, those of the five standard operations carry it exactly in sandbox mode; and every
  request carries the content type, accept, client identification and credential headers.
\<close>

theorem sandbox_header:
  "(\<forall>req \<in> set (fst (request client fetch endpoint options)).
      (header req ''X-Sandbox'' \<noteq> None \<longleftrightarrow> sandbox client \<and> isFreeApi options \<noteq> Some True) \<and>
      fixed_headers client req) \<and>
   (\<forall>req \<in> set (fst (getFreeCompany client fetch cui)). free_headers client req) \<and>
   (\<forall>req \<in> set (fst (getFreeApiUsage client fetch)). free_headers client req) \<and>
   (\<forall>req \<in> set (fst (getCompany client fetch cui)). standard_headers client req) \<and>
   (\<forall>req \<in> set (fst (getBilant client fetch cui)). standard_headers client req) \<and>
   (\<forall>req \<in> set (fst (getRestante client fetch cui)). standard_headers client req) \<and>
   (\<forall>req \<in> set (fst (getMof client fetch cui)). standard_headers client req) \<and>
   (\<forall>req \<in> set (fst (searchCompanies client fetch filters)). standard_headers client req)"
proof (intro conjI)
  show "\<forall>req \<in> set (fst (request client fetch endpoint options)).
      (header req ''X-Sandbox'' \<noteq> None \<longleftrightarrow> sandbox client \<and> isFreeApi options \<noteq> Some True) \<and>
      fixed_headers client req"
    by (simp add: request_calls headers_sandbox headers_fixed)
  show "\<forall>req \<in> set (fst (getFreeCompany client fetch cui)). free_headers client req"
    by (auto simp add: getFreeCompany_calls free_request split: sum.splits)
  show "\<forall>req \<in> set (fst (getFreeApiUsage client fetch)). free_headers client req"
    by (simp add: getFreeApiUsage_calls free_request)
  show "\<forall>req \<in> set (fst (getCompany client fetch cui)). standard_headers client req"
    by (auto simp add: getCompany_calls standard_request split: sum.splits)
  show "\<forall>req \<in> set (fst (getBilant client fetch cui)). standard_headers client req"
    by (auto simp add: getBilant_calls standard_request split: sum.splits)
  show "\<forall>req \<in> set (fst (getRestante client fetch cui)). standard_headers client req"
    by (auto simp add: getRestante_calls standard_request split: sum.splits)
  show "\<forall>req \<in> set (fst (getMof client fetch cui)). standard_headers client req"
    by (auto simp add: getMof_calls standard_request split: sum.splits)
  show "\<forall>req \<in> set (fst (searchCompanies client fetch filters)). standard_headers client req"
    by (simp add: searchCompanies_calls standard_request)
qed

theorem sandbox_header_witness:
  "fst (getCompany \<lparr> apiKey = ''key'', sandbox = True, baseUrl = ''https://www.firmeapi.ro/api'', timeout = 30000 \<rparr>
         (\<lambda>r. Inl (JsError ''TypeError'' ''fetch failed'')) ''12345678'') =
     [\<lparr> url = ''https://www.firmeapi.ro/api/v1/firma/12345678'', http_method = ''GET'',
        headers = [(''Content-Type'', ''application/json''), (''Accept'', ''application/json''),
                   (''User-Agent'', ''firmeapi-node/1.0.0''), (''X-API-KEY'', ''key''),
                   (''X-Sandbox'', ''true'')] \<rparr>] \<and>
   standard_headers \<lparr> apiKey = ''key'', sandbox = True, baseUrl = ''https://www.firmeapi.ro/api'', timeout = 30000 \<rparr>
     \<lparr> url = ''https://www.firmeapi.ro/api/v1/firma/12345678'', http_method = ''GET'',
        headers = [(''Content-Type'', ''application/json''), (''Accept'', ''application/json''),
                   (''User-Agent'', ''firmeapi-node/1.0.0''), (''X-API-KEY'', ''key''),
                   (''X-Sandbox'', ''true'')] \<rparr> \<and>
   fst (getFreeCompany \<lparr> apiKey = ''key'', sandbox = True, baseUrl = ''https://www.firmeapi.ro/api'', timeout = 30000 \<rparr>
         (\<lambda>r. Inl (JsError ''TypeError'' ''fetch failed'')) ''12345678'') =
     [\<lparr> url = ''https://www.firmeapi.ro/api/free/firma/12345678'', http_method = ''GET'',
        headers = [(''Content-Type'', ''application/json''), (''Accept'', ''application/json''),
                   (''User-Agent'', ''firmeapi-node/1.0.0''), (''X-API-KEY'', ''key'')] \<rparr>] \<and>
   free_headers \<lparr> apiKey = ''key'', sandbox = True, baseUrl = ''https://www.firmeapi.ro/api'', timeout = 30000 \<rparr>
     \<lparr> url = ''https://www.firmeapi.ro/api/free/firma/12345678'', http_method = ''GET'',
        headers = [(''Content-Type'', ''application/json''), (''Accept'', ''application/json''),
                   (''User-Agent'', ''firmeapi-node/1.0.0''), (''X-API-KEY'', ''key'')] \<rparr>"
  using sandbox_header
    [of "\<lparr> apiKey = ''key'', sandbox = True, baseUrl = ''https://www.firmeapi.ro/api'', timeout = 30000 \<rparr>"
        "\<lambda>r. Inl (JsError ''TypeError'' ''fetch failed'')" "''/v1/firma/12345678''" "\<lparr> isFreeApi = None \<rparr>"
        "''12345678''"]
  by (simp add: getCompany_calls getFreeCompany_calls cleanCui_def is_digit_def outgoing_def
        request_headers_def Let_def)

text \<open>
  C5: the query is the pairs of the filters, in the order of the eleven keys; every pair
  sent is a present filter with its value, flags as \<open>1\<close> or \<open>0\<close>; the path is \<open>/v1/firme\<close>,
  followed by \<open>?\<close> and the pairs joined with \<open>&\<close> when there are any. No filter gives
  \<open>/v1/firme\<close>; county \<open>B\<close>, the VAT flag and page 2 give \<open>judet=B&tva=1&page=2\<close>.
\<close>

theorem search_query:
  "search_params f =
     string_pair ''q'' (q f) @ string_pair ''judet'' (judet f) @
     string_pair ''localitate'' (localitate f) @ string_pair ''caen'' (caen f) @
     string_pair ''stare'' (stare f) @ string_pair ''data'' (data f) @
     string_pair ''data_start'' (data_start f) @ string_pair ''data_end'' (data_end f) @
     flag_pair ''tva'' (tva f) @ flag_pair ''telefon'' (telefon f) @ page_pair (page f) \<and>
   subseq (map fst (search_params f)) search_keys \<and>
   (\<forall>(k, v) \<in> set (search_params f). filter_value f k = Some v) \<and>
   search_url f =
     ''/v1/firme'' @ (if search_params f = [] then [] else ''?'' @ params_toString (search_params f)) \<and>
   map url (fst (searchCompanies client fetch f)) = [baseUrl client @ search_url f] \<and>
   search_url no_filters = ''/v1/firme'' \<and>
   search_url (no_filters \<lparr> judet := Some ''B'', tva := Some True, page := Some 2 \<rparr>) =
     ''/v1/firme?judet=B&tva=1&page=2''"
proof (intro conjI)
  show "\<forall>(k, v) \<in> set (search_params f). filter_value f k = Some v"
    using search_params_member by blast
  show "search_url no_filters = ''/v1/firme''"
    by (simp add: search_url_query search_params_pairs no_filters_def string_pair_def flag_pair_def
          page_pair_def)
  show "map url (fst (searchCompanies client fetch f)) = [baseUrl client @ search_url f]"
    by (simp add: searchCompanies_def unwrap_def request_def Let_def outgoing_def split: sum.splits)
qed (rule search_params_pairs search_params_keys search_url_query search_url_example)+

theorem search_query_witness:
  "search_params (no_filters \<lparr> judet := Some ''B'', tva := Some True, page := Some 2 \<rparr>) =
     [(''judet'', ''B''), (''tva'', ''1''), (''page'', ''2'')] \<and>
   filter_value (no_filters \<lparr> judet := Some ''B'', tva := Some True, page := Some 2 \<rparr>) ''tva'' = Some ''1'' \<and>
   search_url (no_filters \<lparr> judet := Some ''B'', tva := Some True, page := Some 2 \<rparr>) =
     ''/v1/firme?judet=B&tva=1&page=2''"
  using search_query [of "no_filters \<lparr> judet := Some ''B'', tva := Some True, page := Some 2 \<rparr>"]
  by (simp add: no_filters_def string_pair_def flag_pair_def page_pair_def number_to_string_2
        filter_value_def params_toString_def urlencode_def urlencode_byte_def unreserved_def)

text \<open>
  C6, as stated, fails: a \<open>retry_after\<close> that is present but not a number is not replaced by
  the default 1; the failure carries the supplied text.
\<close>

theorem extra_fields_counterexample:
  "handleErrorResponse 429 (JObj [(''retry_after'', JStr ''soon'')]) =
     Failure (RateLimitError (JStr ''Unknown error'') (JStr ''UNKNOWN_ERROR'') (JStr ''soon'') (JNum 0) (JNum 0)) \<and>
   retryAfter (RateLimitError (JStr ''Unknown error'') (JStr ''UNKNOWN_ERROR'') (JStr ''soon'') (JNum 0) (JNum 0))
     \<noteq> Some (JNum 1)"
  by simp

text \<open>
  C6, amended: at status 403 with one of the two credit codes, and at status 429, each extra
  field is the default (0, 1, 1, 0, 0) when the envelope's snake-case field is absent or
  \<open>null\<close>, and is the supplied value, numeric or not, otherwise.
\<close>

theorem extra_fields_nullish:
  assumes "handleErrorResponse s (JObj kvs) = Failure e"
  shows "(s = 403 \<and> (code_of e = JStr ''CREDITS_EXHAUSTED'' \<or> code_of e = JStr ''MOF_INSUFFICIENT_CREDITS'') \<longrightarrow>
            reads_field (map_of kvs ''available_credits'') (JNum 0) (availableCredits e) \<and>
            reads_field (map_of kvs ''required_credits'') (JNum 1) (requiredCredits e)) \<and>
         (s = 429 \<longrightarrow>
            reads_field (map_of kvs ''retry_after'') (JNum 1) (retryAfter e) \<and>
            reads_field (map_of kvs ''current_usage'') (JNum 0) (currentUsage e) \<and>
            reads_field (map_of kvs ''limit'') (JNum 0) (limit_of e))"
proof -
  have n: "name_of e = classification_table s (code_of e)"
    by (rule handle_name [OF assms])
  have "s = 403 \<and> (code_of e = JStr ''CREDITS_EXHAUSTED'' \<or> code_of e = JStr ''MOF_INSUFFICIENT_CREDITS'')
          \<Longrightarrow> name_of e = ''InsufficientCreditsError''"
    using n by (auto simp add: classification_table_def)
  moreover have "s = 429 \<Longrightarrow> name_of e = ''RateLimitError''"
    using n by (simp add: classification_table_def)
  ultimately show ?thesis
    using handle_credits [OF assms] handle_rate [OF assms]
    by (simp add: reads_field_nullish)
qed

theorem extra_fields_nullish_witness:
  "handleErrorResponse 429 (JObj [(''retry_after'', JStr ''soon''), (''current_usage'', JNull)]) =
     Failure (RateLimitError (JStr ''Unknown error'') (JStr ''UNKNOWN_ERROR'') (JStr ''soon'') (JNum 0) (JNum 0)) \<and>
   reads_field (Some (JStr ''soon'')) (JNum 1) (Some (JStr ''soon'')) \<and>
   reads_field (Some JNull) (JNum 0) (Some (JNum 0)) \<and>
   reads_field None (JNum 0) (Some (JNum 0)) \<and>
   handleErrorResponse 403 (JObj [(''code'', JStr ''CREDITS_EXHAUSTED''), (''available_credits'', JNum 3)]) =
     Failure (InsufficientCreditsError (JStr ''Unknown error'') (JStr ''CREDITS_EXHAUSTED'') (JNum 3) (JNum 1)) \<and>
   reads_field (Some (JNum 3)) (JNum 0) (Some (JNum 3)) \<and>
   reads_field None (JNum 1) (Some (JNum 1))"
  using extra_fields_nullish
    [of 429 "[(''retry_after'', JStr ''soon''), (''current_usage'', JNull)]"
        "RateLimitError (JStr ''Unknown error'') (JStr ''UNKNOWN_ERROR'') (JStr ''soon'') (JNum 0) (JNum 0)"]
    extra_fields_nullish
    [of 403 "[(''code'', JStr ''CREDITS_EXHAUSTED''), (''available_credits'', JNum 3)]"
        "InsufficientCreditsError (JStr ''Unknown error'') (JStr ''CREDITS_EXHAUSTED'') (JNum 3) (JNum 1)"]
  by simp

text \<open>
  C7, as stated, fails: with \<open>message\<close>, \<open>error\<close> and \<open>code\<close> all present and empty, the failure's
  message is the literal \<open>Unknown error\<close> and its code is \<open>UNKNOWN_ERROR\<close>, not the fields.
\<close>

theorem message_and_code_counterexample:
  "handleErrorResponse 404 (JObj [(''message'', JStr []), (''error'', JStr []), (''code'', JStr [])]) =
     Failure (NotFoundError (JStr ''Unknown error'') (JStr ''UNKNOWN_ERROR'')) \<and>
   map_of [(''message'', JStr []), (''error'', JStr []), (''code'', JStr [])] ''message'' = Some (JStr []) \<and>
   map_of [(''message'', JStr []), (''error'', JStr []), (''code'', JStr [])] ''error'' = Some (JStr []) \<and>
   map_of [(''message'', JStr []), (''error'', JStr []), (''code'', JStr [])] ''code'' = Some (JStr []) \<and>
   message_of (NotFoundError (JStr ''Unknown error'') (JStr ''UNKNOWN_ERROR'')) \<noteq> JStr [] \<and>
   code_of (NotFoundError (JStr ''Unknown error'') (JStr ''UNKNOWN_ERROR'')) \<noteq> JStr []"
  by simp

text \<open>
  C7, amended: the failure's message is the envelope's \<open>message\<close> string when that is not
  empty; else, the \<open>message\<close> field being absent or falsy, its \<open>error\<close> string when that is
  not empty; else, both being absent or falsy, the literal \<open>Unknown error\<close>. Its code is the
  \<open>code\<close> field when truthy, else \<open>UNKNOWN_ERROR\<close>. An absent field, \<open>null\<close> and the empty
  string are falsy.
\<close>

theorem message_and_code_fallback:
  assumes "handleErrorResponse s (JObj kvs) = Failure e"
  shows "(\<forall>m. map_of kvs ''message'' = Some (JStr m) \<and> m \<noteq> [] \<longrightarrow> message_of e = JStr m) \<and>
         (\<forall>x. \<not> truthy (map_of kvs ''message'') \<and> map_of kvs ''error'' = Some (JStr x) \<and> x \<noteq> []
              \<longrightarrow> message_of e = JStr x) \<and>
         (\<not> truthy (map_of kvs ''message'') \<and> \<not> truthy (map_of kvs ''error'')
              \<longrightarrow> message_of e = JStr ''Unknown error'') \<and>
         (\<forall>c. map_of kvs ''code'' = Some c \<and> truthy (Some c) \<longrightarrow> code_of e = c) \<and>
         (\<not> truthy (map_of kvs ''code'') \<longrightarrow> code_of e = JStr ''UNKNOWN_ERROR'')"
  using handle_message [OF assms] handle_code [OF assms]
  by (auto simp add: logical_or_falsy)

theorem message_and_code_fallback_witness:
  "handleErrorResponse 401 (JObj [(''error'', JStr ''Invalid API key''), (''code'', JStr ''INVALID_KEY'')]) =
     Failure (AuthenticationError (JStr ''Invalid API key'') (JStr ''INVALID_KEY'')) \<and>
   \<not> truthy (map_of [(''error'', JStr ''Invalid API key''), (''code'', JStr ''INVALID_KEY'')] ''message'') \<and>
   message_of (AuthenticationError (JStr ''Invalid API key'') (JStr ''INVALID_KEY'')) = JStr ''Invalid API key'' \<and>
   code_of (AuthenticationError (JStr ''Invalid API key'') (JStr ''INVALID_KEY'')) = JStr ''INVALID_KEY'' \<and>
   handleErrorResponse 500 (JObj [(''message'', JStr ''Down''), (''error'', JStr ''Server error'')]) =
     Failure (ApiError (JStr ''Down'') (JStr ''UNKNOWN_ERROR'') 500) \<and>
   message_of (ApiError (JStr ''Down'') (JStr ''UNKNOWN_ERROR'') 500) = JStr ''Down'' \<and>
   code_of (ApiError (JStr ''Down'') (JStr ''UNKNOWN_ERROR'') 500) = JStr ''UNKNOWN_ERROR'' \<and>
   handleErrorResponse 404 (JObj []) = Failure (NotFoundError (JStr ''Unknown error'') (JStr ''UNKNOWN_ERROR''))"
  using message_and_code_fallback
    [of 401 "[(''error'', JStr ''Invalid API key''), (''code'', JStr ''INVALID_KEY'')]"
        "AuthenticationError (JStr ''Invalid API key'') (JStr ''INVALID_KEY'')"]
    message_and_code_fallback
    [of 500 "[(''message'', JStr ''Down''), (''error'', JStr ''Server error'')]"
        "ApiError (JStr ''Down'') (JStr ''UNKNOWN_ERROR'') 500"]
    message_and_code_fallback
    [of 404 "[]" "NotFoundError (JStr ''Unknown error'') (JStr ''UNKNOWN_ERROR'')"]
  by simp

text \<open>
  C8, as stated, fails: a body that does not parse ends the call in a network failure built
  from the parse error's message, not in the parse error itself.
\<close>

theorem parse_failure_counterexample:
  "snd (request \<lparr> apiKey = ''key'', sandbox = False, baseUrl = ''https://www.firmeapi.ro/api'', timeout = 30000 \<rparr>
          (\<lambda>r. Inr \<lparr> status = 200, json_result = Inl (JsError ''SyntaxError'' ''Unexpected end of JSON input'') \<rparr>)
          ''/v1/firma/12345678'' \<lparr> isFreeApi = None \<rparr>) =
     Inl (Failure (NetworkError ''Unexpected end of JSON input'')) \<and>
   snd (request \<lparr> apiKey = ''key'', sandbox = False, baseUrl = ''https://www.firmeapi.ro/api'', timeout = 30000 \<rparr>
          (\<lambda>r. Inr \<lparr> status = 200, json_result = Inl (JsError ''SyntaxError'' ''Unexpected end of JSON input'') \<rparr>)
          ''/v1/firma/12345678'' \<lparr> isFreeApi = None \<rparr>) \<noteq>
     Inl (JsError ''SyntaxError'' ''Unexpected end of JSON input'')"
  by (simp add: request_outcome)

text \<open>
  C8, amended: whatever the status, when the parse step throws, the status is not
  classified and the call's outcome is what the \<open>catch\<close> block makes of the thrown value:
  a network failure with the parse error's message (a timeout failure if the error is
  named \<open>AbortError\<close>; a typed failure stays as it is).
\<close>

theorem parse_failure_wrapped:
  assumes "fetch (outgoing client endpoint options) = Inr response"
    and "json_result response = Inl x"
  shows "snd (request client fetch endpoint options) =
           Inl (Failure (case x of
                  Failure e \<Rightarrow> e
                | JsError name msg \<Rightarrow>
                    if name = ''AbortError''
                    then TimeoutError (''Request timed out after '' @ number_to_string (timeout client) @ ''ms'')
                    else NetworkError msg
                | NonError v \<Rightarrow> NetworkError ''An unknown error occurred''))"
proof -
  have "request_try (fetch (outgoing client endpoint options)) = Inl x"
    using assms by simp
  then have "snd (request client fetch endpoint options) = Inl (request_catch client x)"
    by (simp add: request_outcome)
  then show ?thesis by (cases x) simp_all
qed

theorem parse_failure_wrapped_witness:
  "snd (request \<lparr> apiKey = ''key'', sandbox = False, baseUrl = ''https://www.firmeapi.ro/api'', timeout = 30000 \<rparr>
          (\<lambda>r. Inr \<lparr> status = 502, json_result = Inl (JsError ''SyntaxError'' ''Unexpected token <'') \<rparr>)
          ''/v1/firma/12345678'' \<lparr> isFreeApi = None \<rparr>) =
     Inl (Failure (NetworkError ''Unexpected token <''))"
  using parse_failure_wrapped
    [of "\<lambda>r. Inr \<lparr> status = 502, json_result = Inl (JsError ''SyntaxError'' ''Unexpected token <'') \<rparr>"
        "\<lparr> apiKey = ''key'', sandbox = False, baseUrl = ''https://www.firmeapi.ro/api'', timeout = 30000 \<rparr>"
        "''/v1/firma/12345678''" "\<lparr> isFreeApi = None \<rparr>"
        "\<lparr> status = 502, json_result = Inl (JsError ''SyntaxError'' ''Unexpected token <'') \<rparr>"
        "JsError ''SyntaxError'' ''Unexpected token <''"]
  by simp

text \<open>
  C9: of what the \<open>try\<close> block throws, a typed failure is the outcome as it is; an error
  named \<open>AbortError\<close>, which is what the deadline's abort raises, gives a timeout failure;
  any other error gives a network failure with that error's message (a thrown value that is
  no error has no message, and gives a network failure too). The validation failure of the
  identifier check, raised before the request, is the operation's outcome unchanged.
\<close>

theorem caught_errors:
  "(request_try (fetch (outgoing client endpoint options)) = Inl x \<longrightarrow>
      (\<forall>e. x = Failure e \<longrightarrow> snd (request client fetch endpoint options) = Inl (Failure e)) \<and>
      (\<forall>msg. x = JsError ''AbortError'' msg \<longrightarrow>
         snd (request client fetch endpoint options) =
           Inl (Failure (TimeoutError (''Request timed out after '' @ number_to_string (timeout client) @ ''ms'')))) \<and>
      (\<forall>name msg. x = JsError name msg \<and> name \<noteq> ''AbortError'' \<longrightarrow>
         snd (request client fetch endpoint options) = Inl (Failure (NetworkError msg))) \<and>
      (\<forall>v. x = NonError v \<longrightarrow>
         snd (request client fetch endpoint options) = Inl (Failure (NetworkError ''An unknown error occurred'')))) \<and>
   (cleanCui cui = Inl y \<longrightarrow>
      snd (getCompany client fetch cui) = Inl y \<and> snd (getBilant client fetch cui) = Inl y \<and>
      snd (getRestante client fetch cui) = Inl y \<and> snd (getMof client fetch cui) = Inl y \<and>
      snd (getFreeCompany client fetch cui) = Inl y)"
proof (intro conjI impI)
  assume "cleanCui cui = Inl y"
  then show "snd (getCompany client fetch cui) = Inl y"
    and "snd (getBilant client fetch cui) = Inl y"
    and "snd (getRestante client fetch cui) = Inl y"
    and "snd (getMof client fetch cui) = Inl y"
    and "snd (getFreeCompany client fetch cui) = Inl y"
    by (simp_all add: invalid_outcomes)
next
  assume "request_try (fetch (outgoing client endpoint options)) = Inl x"
  then have out: "snd (request client fetch endpoint options) = Inl (request_catch client x)"
    by (simp add: request_outcome)
  show "\<forall>e. x = Failure e \<longrightarrow> snd (request client fetch endpoint options) = Inl (Failure e)"
    using out by simp
  show "\<forall>msg. x = JsError ''AbortError'' msg \<longrightarrow>
         snd (request client fetch endpoint options) =
           Inl (Failure (TimeoutError (''Request timed out after '' @ number_to_string (timeout client) @ ''ms'')))"
    using out by simp
  show "\<forall>name msg. x = JsError name msg \<and> name \<noteq> ''AbortError'' \<longrightarrow>
         snd (request client fetch endpoint options) = Inl (Failure (NetworkError msg))"
    using out by simp
  show "\<forall>v. x = NonError v \<longrightarrow>
         snd (request client fetch endpoint options) = Inl (Failure (NetworkError ''An unknown error occurred''))"
    using out by simp
qed

theorem caught_errors_witness:
  "snd (request \<lparr> apiKey = ''key'', sandbox = False, baseUrl = ''https://www.firmeapi.ro/api'', timeout = 30000 \<rparr>
          (\<lambda>r. Inl (JsError ''AbortError'' ''This operation was aborted''))
          ''/v1/firma/12345678'' \<lparr> isFreeApi = None \<rparr>) =
     Inl (Failure (TimeoutError ''Request timed out after 30000ms'')) \<and>
   snd (request \<lparr> apiKey = ''key'', sandbox = False, baseUrl = ''https://www.firmeapi.ro/api'', timeout = 30000 \<rparr>
          (\<lambda>r. Inl (JsError ''TypeError'' ''fetch failed''))
          ''/v1/firma/12345678'' \<lparr> isFreeApi = None \<rparr>) =
     Inl (Failure (NetworkError ''fetch failed'')) \<and>
   snd (request \<lparr> apiKey = ''key'', sandbox = False, baseUrl = ''https://www.firmeapi.ro/api'', timeout = 30000 \<rparr>
          (\<lambda>r. Inr \<lparr> status = 404, json_result = Inr (JObj [(''message'', JStr ''No such company''), (''code'', JStr ''NOT_FOUND'')]) \<rparr>)
          ''/v1/firma/12345678'' \<lparr> isFreeApi = None \<rparr>) =
     Inl (Failure (NotFoundError (JStr ''No such company'') (JStr ''NOT_FOUND''))) \<and>
   snd (getMof \<lparr> apiKey = ''key'', sandbox = False, baseUrl = ''https://www.firmeapi.ro/api'', timeout = 30000 \<rparr>
          (\<lambda>r. Inl (JsError ''TypeError'' ''fetch failed'')) ''7'') = Inl invalid_cui"
  using caught_errors
    [of "\<lambda>r. Inl (JsError ''AbortError'' ''This operation was aborted'')"
        "\<lparr> apiKey = ''key'', sandbox = False, baseUrl = ''https://www.firmeapi.ro/api'', timeout = 30000 \<rparr>"
        "''/v1/firma/12345678''" "\<lparr> isFreeApi = None \<rparr>"
        "JsError ''AbortError'' ''This operation was aborted''" "''7''" invalid_cui]
    caught_errors
    [of "\<lambda>r. Inl (JsError ''TypeError'' ''fetch failed'')"
        "\<lparr> apiKey = ''key'', sandbox = False, baseUrl = ''https://www.firmeapi.ro/api'', timeout = 30000 \<rparr>"
        "''/v1/firma/12345678''" "\<lparr> isFreeApi = None \<rparr>"
        "JsError ''TypeError'' ''fetch failed''" "''7''" invalid_cui]
    caught_errors
    [of "\<lambda>r. Inr \<lparr> status = 404, json_result = Inr (JObj [(''message'', JStr ''No such company''), (''code'', JStr ''NOT_FOUND'')]) \<rparr>"
        "\<lparr> apiKey = ''key'', sandbox = False, baseUrl = ''https://www.firmeapi.ro/api'', timeout = 30000 \<rparr>"
        "''/v1/firma/12345678''" "\<lparr> isFreeApi = None \<rparr>"
        "Failure (NotFoundError (JStr ''No such company'') (JStr ''NOT_FOUND''))" "''7''" invalid_cui]
  by (simp add: ok_def number_to_string_def decimal.simps digit_char_def cleanCui_def is_digit_def
        invalid_cui_def)

text \<open>
  C10: a string filter set to the empty string, and a page set to 0, give the same path as
  the filter left out; a flag set to \<open>False\<close> is sent as \<open>0\<close>, and is not sent when left out.
\<close>

theorem falsy_filters_omitted:
  "search_url (f \<lparr> q := Some [] \<rparr>) = search_url (f \<lparr> q := None \<rparr>) \<and>
   search_url (f \<lparr> judet := Some [] \<rparr>) = search_url (f \<lparr> judet := None \<rparr>) \<and>
   search_url (f \<lparr> localitate := Some [] \<rparr>) = search_url (f \<lparr> localitate := None \<rparr>) \<and>
   search_url (f \<lparr> caen := Some [] \<rparr>) = search_url (f \<lparr> caen := None \<rparr>) \<and>
   search_url (f \<lparr> stare := Some [] \<rparr>) = search_url (f \<lparr> stare := None \<rparr>) \<and>
   search_url (f \<lparr> data := Some [] \<rparr>) = search_url (f \<lparr> data := None \<rparr>) \<and>
   search_url (f \<lparr> data_start := Some [] \<rparr>) = search_url (f \<lparr> data_start := None \<rparr>) \<and>
   search_url (f \<lparr> data_end := Some [] \<rparr>) = search_url (f \<lparr> data_end := None \<rparr>) \<and>
   search_url (f \<lparr> page := Some 0 \<rparr>) = search_url (f \<lparr> page := None \<rparr>) \<and>
   (''tva'', ''0'') \<in> set (search_params (f \<lparr> tva := Some False \<rparr>)) \<and>
   ''tva'' \<notin> fst ` set (search_params (f \<lparr> tva := None \<rparr>)) \<and>
   (''telefon'', ''0'') \<in> set (search_params (f \<lparr> telefon := Some False \<rparr>)) \<and>
   ''telefon'' \<notin> fst ` set (search_params (f \<lparr> telefon := None \<rparr>))"
proof (intro conjI)
  show "''tva'' \<notin> fst ` set (search_params (f \<lparr> tva := None \<rparr>))"
    by (simp add: search_params_pairs image_Un string_pair_key flag_pair_key page_pair_key flag_pair_None)
  show "''telefon'' \<notin> fst ` set (search_params (f \<lparr> telefon := None \<rparr>))"
    by (simp add: search_params_pairs image_Un string_pair_key flag_pair_key page_pair_key flag_pair_None)
qed (simp_all add: search_url_query search_params_pairs string_pair_def flag_pair_def page_pair_def)

theorem falsy_filters_omitted_witness:
  "search_url (no_filters \<lparr> q := Some [], tva := Some False, page := Some 0 \<rparr>) = ''/v1/firme?tva=0'' \<and>
   search_url (no_filters \<lparr> q := None, tva := Some False, page := Some 0 \<rparr>) = ''/v1/firme?tva=0'' \<and>
   (''tva'', ''0'') \<in> set (search_params (no_filters \<lparr> q := Some [], page := Some 0, tva := Some False \<rparr>))"
  using falsy_filters_omitted [of "no_filters \<lparr> tva := Some False, page := Some 0 \<rparr>"]
        falsy_filters_omitted [of "no_filters \<lparr> q := Some [], page := Some 0 \<rparr>"]
  by (simp add: search_url_query search_params_pairs no_filters_def string_pair_def flag_pair_def
        page_pair_def params_toString_def urlencode_def urlencode_byte_def unreserved_def)

end
